theory Spec2Isabelle
  imports Complex_Main
begin

section \<open>JavaScript values\<close>

text \<open>
  A field of a request body or of a stored document may be absent (\<open>undefined\<close>), an
  explicit \<open>null\<close>, or hold a value of the type the schema declares for it.
\<close>

datatype 'a js = Undefined | Null | Val 'a

text \<open>Truthiness, as \<open>if (x)\<close> and \<open>!x\<close> test it, for strings, booleans and objects.\<close>

fun truthy_str :: "string js \<Rightarrow> bool" where
  "truthy_str (Val s) = (s \<noteq> [])"
| "truthy_str _ = False"

fun truthy_bool :: "bool js \<Rightarrow> bool" where
  "truthy_bool (Val b) = b"
| "truthy_bool _ = False"

fun truthy_obj :: "'a js \<Rightarrow> bool" where
  "truthy_obj (Val _) = True"
| "truthy_obj _ = False"

text \<open>The guard \<open>xs && xs.length > 0\<close> on an array-valued field.\<close>

fun has_items :: "'a list js \<Rightarrow> bool" where
  "has_items (Val xs) = (xs \<noteq> [])"
| "has_items _ = False"

text \<open>The elements \<open>forEach\<close> visits once the guard above has passed.\<close>

fun items :: "'a list js \<Rightarrow> 'a list" where
  "items (Val xs) = xs"
| "items _ = []"

text \<open>Interpolation \<open>${x}\<close> of a string-valued field inside a template literal.\<close>

fun interp :: "string js \<Rightarrow> string" where
  "interp Undefined = ''undefined''"
| "interp Null = ''null''"
| "interp (Val s) = s"

text \<open>\<open>xs.join(', ')\<close> on an array of strings.\<close>

fun join :: "string \<Rightarrow> string list \<Rightarrow> string" where
  "join sep [] = []"
| "join sep [x] = x"
| "join sep (x # y # ys) = x @ sep @ join sep (y # ys)"

text \<open>Decimal rendering of a number inside a template literal.\<close>

fun show_nat :: "nat \<Rightarrow> string" where
  "show_nat n =
     (if n < 10 then [''0123456789'' ! n]
      else show_nat (n div 10) @ [''0123456789'' ! (n mod 10)])"

declare show_nat.simps [simp del]

definition show_int :: "int \<Rightarrow> string" where
  "show_int i = (if i < 0 then CHR ''-'' # show_nat (nat (- i)) else show_nat (nat i))"

section \<open>Dates and the runtime\<close>

text \<open>
  A date is given by its time value, in milliseconds since the epoch. A \<open>Date\<close> holds a
  time value of at most 8640000000000000 in absolute value; \<open>new Date\<close> of anything
  else is the invalid date (time value \<open>NaN\<close>, here \<open>None\<close>). The rendering code wraps
  every date field in \<open>new Date(...)\<close>: an absent field gives the invalid date, \<open>null\<close>
  gives the epoch.
\<close>

type_synonym date = int

definition valid_time :: "date \<Rightarrow> bool" where
  "valid_time t = (- 8640000000000000 \<le> t \<and> t \<le> 8640000000000000)"

fun new_Date :: "date js \<Rightarrow> date option" where
  "new_Date Undefined = None"
| "new_Date Null = Some 0"
| "new_Date (Val t) = (if valid_time t then Some t else None)"

text \<open>
  What the server process supplies and the repository does not define: the local-time
  calendar behind \<open>getFullYear\<close>, the locale behind \<open>toLocaleDateString\<close>, the
  generative provider behind \<open>model.generateContent\<close> (an error when the call throws,
  the response text otherwise), \<open>JSON.parse\<close> (\<open>None\<close> when it throws a syntax error;
  otherwise the parsed object, read at the paths of the resume schema), and
  \<open>process.env.NODE_ENV\<close>.
\<close>

record 'a runtime =
  getFullYear :: "date \<Rightarrow> int"
  toLocaleDateString :: "date \<Rightarrow> string"
  generateContent :: "string \<Rightarrow> string + string"
  JSON_parse :: "string \<Rightarrow> 'a option"
  NODE_ENV :: "string js"

text \<open>\<open>${d.getFullYear()}\<close>: the year, or \<open>NaN\<close> for the invalid date.\<close>

fun year_text :: "('a, 'b) runtime_scheme \<Rightarrow> date option \<Rightarrow> string" where
  "year_text rt None = ''NaN''"
| "year_text rt (Some t) = show_int (getFullYear rt t)"

fun locale_date_text :: "('a, 'b) runtime_scheme \<Rightarrow> date option \<Rightarrow> string" where
  "locale_date_text rt None = ''Invalid Date''"
| "locale_date_text rt (Some t) = toLocaleDateString rt t"

section \<open>The resume schema (models/Resume.js)\<close>

type_synonym objectId = nat

record personal_info =
  fullName :: "string js"
  email :: "string js"
  phone :: "string js"
  address :: "string js"
  linkedin :: "string js"
  website :: "string js"
  summary :: "string js"

record experience_entry =
  exp_company :: "string js"
  exp_position :: "string js"
  exp_startDate :: "date js"
  exp_endDate :: "date js"
  exp_current :: "bool js"
  exp_description :: "string js"
  exp_achievements :: "string list js"
  exp_skills :: "string list js"

record education_entry =
  edu_institution :: "string js"
  edu_degree :: "string js"
  edu_field :: "string js"
  edu_startDate :: "date js"
  edu_endDate :: "date js"
  edu_gpa :: "string js"
  edu_honors :: "string list js"

record skill_set =
  technical :: "string list js"
  soft :: "string list js"
  languages :: "string list js"

record project_entry =
  proj_name :: "string js"
  proj_description :: "string js"
  proj_technologies :: "string list js"
  proj_link :: "string js"
  proj_startDate :: "date js"
  proj_endDate :: "date js"

record certification_entry =
  cert_name :: "string js"
  cert_issuer :: "string js"
  cert_date :: "date js"
  cert_expiryDate :: "date js"
  cert_link :: "string js"

record accessibility_info =
  disabilityType :: "string js"
  accommodations :: "string list js"
  accessibilityPreferences :: "string list js"

record resume =
  userId :: "objectId js"
  personalInfo :: personal_info
  experience :: "experience_entry list js"
  education :: "education_entry list js"
  skills :: "skill_set js"
  projects :: "project_entry list js"
  certifications :: "certification_entry list js"
  accessibility :: accessibility_info
  template :: "string js"
  aiGenerated :: "bool js"
  aiPrompt :: "string js"
  isActive :: "bool js"

section \<open>The PDF document (pdfkit), as the sequence of calls made on it\<close>

datatype text_options = NoOptions | AlignCenter

datatype pdf_call =
  FontSize nat
| Font string
| Text "string js" text_options
| MoveDown rat
| End

record pdfdoc =
  page_size :: string
  margin :: nat
  calls :: "pdf_call list"

definition PDFDocument :: "string \<Rightarrow> nat \<Rightarrow> pdfdoc" where
  "PDFDocument sz m = \<lparr>page_size = sz, margin = m, calls = []\<rparr>"

definition emit :: "pdf_call \<Rightarrow> pdfdoc \<Rightarrow> pdfdoc" where
  "emit c doc = doc\<lparr>calls := calls doc @ [c]\<rparr>"

definition fontSize :: "nat \<Rightarrow> pdfdoc \<Rightarrow> pdfdoc" where
  "fontSize n = emit (FontSize n)"

definition font :: "string \<Rightarrow> pdfdoc \<Rightarrow> pdfdoc" where
  "font f = emit (Font f)"

definition text_opts :: "string js \<Rightarrow> text_options \<Rightarrow> pdfdoc \<Rightarrow> pdfdoc" where
  "text_opts s opts = emit (Text s opts)"

definition text_line :: "string js \<Rightarrow> pdfdoc \<Rightarrow> pdfdoc" where
  "text_line s = text_opts s NoOptions"

definition moveDown :: "rat \<Rightarrow> pdfdoc \<Rightarrow> pdfdoc" where
  "moveDown k = emit (MoveDown k)"

definition end_doc :: "pdfdoc \<Rightarrow> pdfdoc" where
  "end_doc = emit End"

section \<open>generatePDFContent (backend/models/User.js, the resume routes)\<close>

text \<open>The seven bytes the source has before each achievement, and the space after them.\<close>

definition bullet :: string where
  "bullet = [CHR 0xC3, CHR 0xA2, CHR 0xE2, CHR 0x82, CHR 0xAC, CHR 0xC2, CHR 0xA2, CHR '' '']"

definition render_header :: "personal_info \<Rightarrow> pdfdoc \<Rightarrow> pdfdoc" where
  "render_header p doc =
     (let d1 = text_opts (fullName p) AlignCenter (font ''Helvetica-Bold'' (fontSize 24 doc));
          d2 = text_opts (email p) AlignCenter (font ''Helvetica'' (fontSize 12 d1));
          d3 = (if truthy_str (phone p) then text_opts (phone p) AlignCenter d2 else d2)
      in moveDown (1 / 2) d3)"

definition render_summary :: "personal_info \<Rightarrow> pdfdoc \<Rightarrow> pdfdoc" where
  "render_summary p doc =
     (if truthy_str (summary p) then
        (let d1 = text_line (Val ''Professional Summary'')
                    (font ''Helvetica-Bold'' (fontSize 14 doc));
             d2 = text_line (summary p) (font ''Helvetica'' (fontSize 10 d1))
         in moveDown (1 / 2) d2)
      else doc)"

definition render_achievement :: "string \<Rightarrow> pdfdoc \<Rightarrow> pdfdoc" where
  "render_achievement a doc = text_line (Val (bullet @ a)) doc"

definition experience_date_line :: "('a, 'b) runtime_scheme \<Rightarrow> experience_entry \<Rightarrow> string" where
  "experience_date_line rt e =
     year_text rt (new_Date (exp_startDate e)) @ '' - '' @
     (if truthy_bool (exp_current e) then ''Present''
      else year_text rt (new_Date (exp_endDate e)))"

definition render_experience_entry ::
  "('a, 'b) runtime_scheme \<Rightarrow> experience_entry \<Rightarrow> pdfdoc \<Rightarrow> pdfdoc" where
  "render_experience_entry rt e doc =
     (let d1 = text_line (Val (interp (exp_position e) @ '' at '' @ interp (exp_company e)))
                 (font ''Helvetica-Bold'' (fontSize 12 doc));
          d2 = text_line (Val (experience_date_line rt e))
                 (font ''Helvetica'' (fontSize 10 d1));
          d3 = (if truthy_str (exp_description e) then text_line (exp_description e) d2 else d2);
          d4 = (if has_items (exp_achievements e)
                then fold render_achievement (items (exp_achievements e)) d3 else d3)
      in moveDown (3 / 10) d4)"

definition render_experience ::
  "('a, 'b) runtime_scheme \<Rightarrow> experience_entry list js \<Rightarrow> pdfdoc \<Rightarrow> pdfdoc" where
  "render_experience rt es doc =
     (if has_items es then
        fold (render_experience_entry rt) (items es)
          (text_line (Val ''Professional Experience'')
             (font ''Helvetica-Bold'' (fontSize 14 doc)))
      else doc)"

definition render_education_entry :: "education_entry \<Rightarrow> pdfdoc \<Rightarrow> pdfdoc" where
  "render_education_entry e doc =
     (let d1 = text_line (Val (interp (edu_degree e) @ '' in '' @ interp (edu_field e)))
                 (font ''Helvetica-Bold'' (fontSize 12 doc));
          d2 = text_line (edu_institution e) (font ''Helvetica'' (fontSize 10 d1));
          d3 = (if truthy_str (edu_gpa e)
                then text_line (Val (''GPA: '' @ interp (edu_gpa e))) d2 else d2)
      in moveDown (3 / 10) d3)"

definition render_education :: "education_entry list js \<Rightarrow> pdfdoc \<Rightarrow> pdfdoc" where
  "render_education es doc =
     (if has_items es then
        fold render_education_entry (items es)
          (text_line (Val ''Education'') (font ''Helvetica-Bold'' (fontSize 14 doc)))
      else doc)"

definition render_skill_set :: "skill_set \<Rightarrow> pdfdoc \<Rightarrow> pdfdoc" where
  "render_skill_set s doc =
     (let d1 = text_line (Val ''Skills'') (font ''Helvetica-Bold'' (fontSize 14 doc));
          d2 = (if has_items (technical s)
                then text_line (Val (''Technical: '' @ join '', '' (items (technical s))))
                       (font ''Helvetica'' (fontSize 10 d1))
                else d1);
          d3 = (if has_items (soft s)
                then text_line (Val (''Soft Skills: '' @ join '', '' (items (soft s)))) d2
                else d2);
          d4 = (if has_items (languages s)
                then text_line (Val (''Languages: '' @ join '', '' (items (languages s)))) d3
                else d3)
      in moveDown (1 / 2) d4)"

definition render_skills :: "skill_set js \<Rightarrow> pdfdoc \<Rightarrow> pdfdoc" where
  "render_skills sk doc =
     (case sk of Val s \<Rightarrow> render_skill_set s doc | _ \<Rightarrow> doc)"

definition render_project :: "project_entry \<Rightarrow> pdfdoc \<Rightarrow> pdfdoc" where
  "render_project p doc =
     (let d1 = text_line (proj_name p) (font ''Helvetica-Bold'' (fontSize 12 doc));
          d2 = (if truthy_str (proj_description p)
                then text_line (proj_description p) (font ''Helvetica'' (fontSize 10 d1))
                else d1);
          d3 = (if has_items (proj_technologies p)
                then text_line
                       (Val (''Technologies: '' @ join '', '' (items (proj_technologies p)))) d2
                else d2)
      in moveDown (3 / 10) d3)"

definition render_projects :: "project_entry list js \<Rightarrow> pdfdoc \<Rightarrow> pdfdoc" where
  "render_projects ps doc =
     (if has_items ps then
        fold render_project (items ps)
          (text_line (Val ''Projects'') (font ''Helvetica-Bold'' (fontSize 14 doc)))
      else doc)"

definition render_certification ::
  "('a, 'b) runtime_scheme \<Rightarrow> certification_entry \<Rightarrow> pdfdoc \<Rightarrow> pdfdoc" where
  "render_certification rt c doc =
     (let d1 = text_line (cert_name c) (font ''Helvetica-Bold'' (fontSize 12 doc));
          d2 = text_line (Val (''Issued by: '' @ interp (cert_issuer c)))
                 (font ''Helvetica'' (fontSize 10 d1));
          d3 = (if truthy_obj (cert_date c)
                then text_line
                       (Val (''Date: '' @ locale_date_text rt (new_Date (cert_date c)))) d2
                else d2)
      in moveDown (3 / 10) d3)"

definition render_certifications ::
  "('a, 'b) runtime_scheme \<Rightarrow> certification_entry list js \<Rightarrow> pdfdoc \<Rightarrow> pdfdoc" where
  "render_certifications rt cs doc =
     (if has_items cs then
        fold (render_certification rt) (items cs)
          (text_line (Val ''Certifications'') (font ''Helvetica-Bold'' (fontSize 14 doc)))
      else doc)"

definition generatePDFContent :: "('a, 'b) runtime_scheme \<Rightarrow> pdfdoc \<Rightarrow> resume \<Rightarrow> pdfdoc" where
  "generatePDFContent rt doc r =
     render_certifications rt (certifications r)
       (render_projects (projects r)
          (render_skills (skills r)
             (render_education (education r)
                (render_experience rt (experience r)
                   (render_summary (personalInfo r)
                      (render_header (personalInfo r) doc))))))"

text \<open>The text of the document: the arguments of its \<open>text\<close> calls, in order.\<close>

fun texts :: "pdf_call list \<Rightarrow> string js list" where
  "texts [] = []"
| "texts (Text s opts # cs) = s # texts cs"
| "texts (c # cs) = texts cs"

section \<open>Schema validation and construction (models/Resume.js)\<close>

text \<open>
  The schema declares \<open>required: true\<close> on some paths, an \<open>enum\<close> on \<open>template\<close>,
  declared defaults on \<open>current\<close>, \<open>template\<close>, \<open>aiGenerated\<close> and \<open>isActive\<close>, and
  nothing else: no \<open>trim\<close>, no custom validator. A required string fails when it is
  absent, null or the empty string; any other required path fails when it is absent or
  null. A path of type \<open>Date\<close> fails its cast when the value given for it is not the
  time value of a \<open>Date\<close>. Validation reports the failing paths, all of them, here in
  the order of the schema.
\<close>

fun required_string :: "string \<Rightarrow> string js \<Rightarrow> string list" where
  "required_string path (Val s) = (if s = [] then [path] else [])"
| "required_string path _ = [path]"

fun required_value :: "string \<Rightarrow> 'a js \<Rightarrow> string list" where
  "required_value path (Val _) = []"
| "required_value path _ = [path]"

fun cast_date :: "string \<Rightarrow> date js \<Rightarrow> string list" where
  "cast_date path (Val t) = (if valid_time t then [] else [path])"
| "cast_date path _ = []"

fun required_date :: "string \<Rightarrow> date js \<Rightarrow> string list" where
  "required_date path (Val t) = (if valid_time t then [] else [path])"
| "required_date path _ = [path]"

definition template_enum :: "string list" where
  "template_enum = [''modern'', ''classic'', ''creative'', ''minimal'']"

fun enum_string :: "string \<Rightarrow> string list \<Rightarrow> string js \<Rightarrow> string list" where
  "enum_string path allowed (Val s) = (if s \<in> set allowed then [] else [path])"
| "enum_string path allowed _ = []"

definition validate_experience :: "nat \<Rightarrow> experience_entry \<Rightarrow> string list" where
  "validate_experience i e =
     required_string (''experience.'' @ show_nat i @ ''.company'') (exp_company e) @
     required_string (''experience.'' @ show_nat i @ ''.position'') (exp_position e) @
     required_date (''experience.'' @ show_nat i @ ''.startDate'') (exp_startDate e) @
     cast_date (''experience.'' @ show_nat i @ ''.endDate'') (exp_endDate e)"

definition validate_education :: "nat \<Rightarrow> education_entry \<Rightarrow> string list" where
  "validate_education i e =
     required_string (''education.'' @ show_nat i @ ''.institution'') (edu_institution e) @
     required_string (''education.'' @ show_nat i @ ''.degree'') (edu_degree e) @
     required_date (''education.'' @ show_nat i @ ''.startDate'') (edu_startDate e) @
     cast_date (''education.'' @ show_nat i @ ''.endDate'') (edu_endDate e)"

definition validate_project :: "nat \<Rightarrow> project_entry \<Rightarrow> string list" where
  "validate_project i p =
     required_string (''projects.'' @ show_nat i @ ''.name'') (proj_name p) @
     cast_date (''projects.'' @ show_nat i @ ''.startDate'') (proj_startDate p) @
     cast_date (''projects.'' @ show_nat i @ ''.endDate'') (proj_endDate p)"

definition validate_certification :: "nat \<Rightarrow> certification_entry \<Rightarrow> string list" where
  "validate_certification i c =
     required_string (''certifications.'' @ show_nat i @ ''.name'') (cert_name c) @
     cast_date (''certifications.'' @ show_nat i @ ''.date'') (cert_date c) @
     cast_date (''certifications.'' @ show_nat i @ ''.expiryDate'') (cert_expiryDate c)"

text \<open>The entries of an array-valued path, each validated under its index.\<close>

definition validate_each :: "(nat \<Rightarrow> 'a \<Rightarrow> string list) \<Rightarrow> 'a list js \<Rightarrow> string list" where
  "validate_each v xs = concat (map (\<lambda>(i, x). v i x) (enumerate 0 (items xs)))"

definition validate :: "resume \<Rightarrow> string list" where
  "validate r =
     required_value ''userId'' (userId r) @
     required_string ''personalInfo.fullName'' (fullName (personalInfo r)) @
     required_string ''personalInfo.email'' (email (personalInfo r)) @
     validate_each validate_experience (experience r) @
     validate_each validate_education (education r) @
     validate_each validate_project (projects r) @
     validate_each validate_certification (certifications r) @
     enum_string ''template'' template_enum (template r)"

text \<open>
  \<open>new Resume(data)\<close>: the declared defaults fill absent paths; an absent array path
  becomes the empty array, and an absent \<open>skills\<close> becomes the object with three empty
  arrays. A path given as \<open>null\<close> stays \<open>null\<close>.
\<close>

fun default_to :: "'a \<Rightarrow> 'a js \<Rightarrow> 'a js" where
  "default_to d Undefined = Val d"
| "default_to d v = v"

fun default_entries :: "('a \<Rightarrow> 'a) \<Rightarrow> 'a list js \<Rightarrow> 'a list js" where
  "default_entries f Undefined = Val []"
| "default_entries f Null = Null"
| "default_entries f (Val xs) = Val (map f xs)"

definition default_experience :: "experience_entry \<Rightarrow> experience_entry" where
  "default_experience e =
     e\<lparr>exp_current := default_to False (exp_current e),
       exp_achievements := default_to [] (exp_achievements e),
       exp_skills := default_to [] (exp_skills e)\<rparr>"

definition default_education :: "education_entry \<Rightarrow> education_entry" where
  "default_education e = e\<lparr>edu_honors := default_to [] (edu_honors e)\<rparr>"

definition default_project :: "project_entry \<Rightarrow> project_entry" where
  "default_project p = p\<lparr>proj_technologies := default_to [] (proj_technologies p)\<rparr>"

definition default_skill_set :: "skill_set \<Rightarrow> skill_set" where
  "default_skill_set s =
     \<lparr>technical = default_to [] (technical s),
      soft = default_to [] (soft s),
      languages = default_to [] (languages s)\<rparr>"

fun default_skills :: "skill_set js \<Rightarrow> skill_set js" where
  "default_skills (Val s) = Val (default_skill_set s)"
| "default_skills Null = Null"
| "default_skills Undefined = Val \<lparr>technical = Val [], soft = Val [], languages = Val []\<rparr>"

definition default_accessibility :: "accessibility_info \<Rightarrow> accessibility_info" where
  "default_accessibility a =
     a\<lparr>accommodations := default_to [] (accommodations a),
       accessibilityPreferences := default_to [] (accessibilityPreferences a)\<rparr>"

definition new_Resume :: "resume \<Rightarrow> resume" where
  "new_Resume d =
     d\<lparr>experience := default_entries default_experience (experience d),
       education := default_entries default_education (education d),
       skills := default_skills (skills d),
       projects := default_entries default_project (projects d),
       certifications := default_entries id (certifications d),
       accessibility := default_accessibility (accessibility d),
       template := default_to ''modern'' (template d),
       aiGenerated := default_to False (aiGenerated d),
       isActive := default_to True (isActive d)\<rparr>"

section \<open>The collection and the requests (backend/models/User.js, the resume routes)\<close>

text \<open>
  The state the handlers act on: the stored resumes in insertion order, each under its
  \<open>_id\<close>, the next fresh \<open>_id\<close>, and the prompts sent to the generative provider so far.
\<close>

type_synonym stored = "objectId \<times> resume"

record world =
  docs :: "stored list"
  next_id :: objectId
  provider_calls :: "string list"

text \<open>
  What a call throws: Mongoose on validation, the provider, and \<open>res.setHeader\<close> on a
  header value it refuses (named by its header).
\<close>

datatype failure = ValidationError "string list" | ProviderError string | InvalidHeaderChar string

text \<open>\<open>resume.save()\<close>: validation first; a valid document is inserted.\<close>

definition save :: "resume \<Rightarrow> world \<Rightarrow> failure + (stored \<times> world)" where
  "save r w =
     (if validate r = [] then
        Inr ((next_id w, r), w\<lparr>docs := docs w @ [(next_id w, r)], next_id := Suc (next_id w)\<rparr>)
      else Inl (ValidationError (validate r)))"

text \<open>The two query filters: \<open>{_id, userId, isActive: true}\<close> and \<open>{_id, userId}\<close>.\<close>

definition matches_active :: "objectId \<Rightarrow> objectId \<Rightarrow> stored \<Rightarrow> bool" where
  "matches_active rid uid d =
     (fst d = rid \<and> userId (snd d) = Val uid \<and> isActive (snd d) = Val True)"

definition matches_owner :: "objectId \<Rightarrow> objectId \<Rightarrow> stored \<Rightarrow> bool" where
  "matches_owner rid uid d = (fst d = rid \<and> userId (snd d) = Val uid)"

definition findOne :: "(stored \<Rightarrow> bool) \<Rightarrow> world \<Rightarrow> stored option" where
  "findOne flt w = find flt (docs w)"

text \<open>The first document the filter matches is replaced by its update.\<close>

fun update_first :: "('a \<Rightarrow> bool) \<Rightarrow> ('a \<Rightarrow> 'a) \<Rightarrow> 'a list \<Rightarrow> 'a list" where
  "update_first P f [] = []"
| "update_first P f (x # xs) = (if P x then f x # xs else x # update_first P f xs)"

text \<open>
  An update document: what it changes in the document it is applied to (never the
  \<open>_id\<close>), and the paths it sets that fail their validators.
\<close>

record update_doc =
  changes :: "resume \<Rightarrow> resume"
  violations :: "string list"

text \<open>
  \<open>findOneAndUpdate(filter, update, {new: true, runValidators})\<close>: the validators of
  the update run before the query; the result is the updated document, or nothing when
  the filter matches no document.
\<close>

definition findOneAndUpdate ::
  "(stored \<Rightarrow> bool) \<Rightarrow> update_doc \<Rightarrow> bool \<Rightarrow> world \<Rightarrow> failure + (stored option \<times> world)" where
  "findOneAndUpdate flt u runValidators w =
     (if runValidators \<and> violations u \<noteq> [] then Inl (ValidationError (violations u))
      else Inr (map_option (apsnd (changes u)) (find flt (docs w)),
                w\<lparr>docs := update_first flt (apsnd (changes u)) (docs w)\<rparr>))"

text \<open>Responses: a JSON body under a status code, or the PDF stream with its headers.\<close>

datatype message = Msg string | ErrorMessage failure

record reply =
  code :: nat
  status :: string
  data :: "stored option"
  message :: "message option"
  error :: "message option"

datatype response = Json reply | Pdf "(string \<times> string) list" pdfdoc

definition success_data :: "nat \<Rightarrow> stored \<Rightarrow> response" where
  "success_data c d =
     Json \<lparr>code = c, status = ''success'', data = Some d, message = None, error = None\<rparr>"

definition error_reply :: "nat \<Rightarrow> message \<Rightarrow> response" where
  "error_reply c m =
     Json \<lparr>code = c, status = ''error'', data = None, message = Some m, error = None\<rparr>"

definition not_found :: response where
  "not_found = error_reply 404 (Msg ''Resume not found'')"

text \<open>\<open>POST /\<close>: create a resume for the requester.\<close>

definition create_resume :: "world \<Rightarrow> objectId \<Rightarrow> resume \<Rightarrow> response \<times> world" where
  "create_resume w uid body =
     (case save (new_Resume (body\<lparr>userId := Val uid\<rparr>)) w of
        Inr (d, w') \<Rightarrow> (success_data 201 d, w')
      | Inl e \<Rightarrow> (error_reply 400 (ErrorMessage e), w))"

text \<open>\<open>GET /:id\<close>\<close>

definition get_resume :: "world \<Rightarrow> objectId \<Rightarrow> objectId \<Rightarrow> response \<times> world" where
  "get_resume w uid rid =
     (case findOne (matches_active rid uid) w of
        None \<Rightarrow> (not_found, w)
      | Some d \<Rightarrow> (success_data 200 d, w))"

text \<open>\<open>PUT /:id\<close>\<close>

definition update_resume ::
  "world \<Rightarrow> objectId \<Rightarrow> objectId \<Rightarrow> update_doc \<Rightarrow> response \<times> world" where
  "update_resume w uid rid body =
     (case findOneAndUpdate (matches_active rid uid) body True w of
        Inl e \<Rightarrow> (error_reply 400 (ErrorMessage e), w)
      | Inr (None, w') \<Rightarrow> (not_found, w')
      | Inr (Some d, w') \<Rightarrow> (success_data 200 d, w'))"

text \<open>\<open>DELETE /:id\<close>: a soft delete.\<close>

definition delete_resume :: "world \<Rightarrow> objectId \<Rightarrow> objectId \<Rightarrow> response \<times> world" where
  "delete_resume w uid rid =
     (case findOneAndUpdate (matches_owner rid uid)
             \<lparr>changes = (\<lambda>r. r\<lparr>isActive := Val False\<rparr>), violations = []\<rparr> False w of
        Inl e \<Rightarrow> (error_reply 500 (ErrorMessage e), w)
      | Inr (None, w') \<Rightarrow> (not_found, w')
      | Inr (Some d, w') \<Rightarrow>
          (Json \<lparr>code = 200, status = ''success'', data = None,
                 message = Some (Msg ''Resume deleted successfully''), error = None\<rparr>, w'))"

text \<open>
  \<open>GET /:id/pdf\<close>. \<open>setHeader\<close> throws on a value with a character other than tab,
  0x20 to 0x7e and 0x80 to 0xff. Strings here are sequences of UTF-8 bytes, where a
  character above 0xff begins with a byte of 0xc4 or more. The handler's \<open>catch\<close> then
  answers 500 and no document is written.
\<close>

definition header_char_ok :: "char \<Rightarrow> bool" where
  "header_char_ok c =
     (of_char c = (9 :: nat) \<or> (32 \<le> (of_char c :: nat) \<and> (of_char c :: nat) \<le> 126) \<or>
      (128 \<le> (of_char c :: nat) \<and> (of_char c :: nat) \<le> 195))"

definition content_disposition :: "resume \<Rightarrow> string" where
  \<open>content_disposition r =
     ''attachment; filename="'' @ interp (fullName (personalInfo r)) @ ''_Resume.pdf"''\<close>

definition pdf_response :: "('a, 'b) runtime_scheme \<Rightarrow> resume \<Rightarrow> response" where
  "pdf_response rt r =
     (if list_all header_char_ok (content_disposition r) then
        Pdf [(''Content-Type'', ''application/pdf''),
             (''Content-Disposition'', content_disposition r)]
            (end_doc (generatePDFContent rt (PDFDocument ''A4'' 50) r))
      else error_reply 500 (ErrorMessage (InvalidHeaderChar ''Content-Disposition'')))"

definition resume_pdf ::
  "('a, 'b) runtime_scheme \<Rightarrow> world \<Rightarrow> objectId \<Rightarrow> objectId \<Rightarrow> response \<times> world" where
  "resume_pdf rt w uid rid =
     (case findOne (matches_active rid uid) w of
        None \<Rightarrow> (not_found, w)
      | Some d \<Rightarrow> (pdf_response rt (snd d), w))"

text \<open>\<open>POST /generate\<close>: the prompt sent to the provider, as the two template literals build it.\<close>

definition nl :: string where
  "nl = [CHR 0x0A]"

definition build_aiPrompt :: "string js \<Rightarrow> string" where
  "build_aiPrompt p =
     ''Create a professional resume based on the following information. '' @ nl @
     ''    Format it as a structured JSON object with the following sections:'' @ nl @
     ''    - personalInfo (fullName, email, phone, summary)'' @ nl @
     ''    - experience (array of work experiences)'' @ nl @
     ''    - education (array of educational background)'' @ nl @
     ''    - skills (technical, soft, languages)'' @ nl @
     ''    - projects (array of relevant projects)'' @ nl @
     ''    - certifications (array of certifications)'' @ nl @
     ''    '' @ nl @
     ''    User input: '' @ interp p @ nl @
     ''    '' @ nl @
     ''    Make it professional, concise, and tailored for job applications. '' @ nl @
     ''    Focus on achievements and measurable results.''"

definition build_geminiPrompt :: "string \<Rightarrow> string" where
  \<open>build_geminiPrompt aiPrompt_text =
     ''You are a professional resume writer. Generate structured resume data in JSON format.'' @ nl @
     nl @
     aiPrompt_text @ nl @
     nl @
     ''Please create a professional resume with the following structure:'' @ nl @
     ''{'' @ nl @
     ''  "personalInfo": {'' @ nl @
     ''    "fullName": "string",'' @ nl @
     ''    "email": "string",'' @ nl @
     ''    "phone": "string",'' @ nl @
     ''    "summary": "string"'' @ nl @
     ''  },'' @ nl @
     ''  "experience": ['' @ nl @
     ''    {'' @ nl @
     ''      "company": "string",'' @ nl @
     ''      "position": "string",'' @ nl @
     ''      "startDate": "string",'' @ nl @
     ''      "description": "string"'' @ nl @
     ''    }'' @ nl @
     ''  ],'' @ nl @
     ''  "skills": {'' @ nl @
     ''    "technical": ["string"],'' @ nl @
     ''    "soft": ["string"]'' @ nl @
     ''  }'' @ nl @
     ''}'' @ nl @
     nl @
     ''Make it professional, concise, and tailored for job applications. Focus on achievements and measurable results. Return only valid JSON.''\<close>

record generate_body =
  prompt :: "string js"
  req_template :: "string js"

text \<open>The outer \<open>catch\<close> of the handler.\<close>

definition generation_failed :: "('a, 'b) runtime_scheme \<Rightarrow> failure \<Rightarrow> response" where
  "generation_failed rt e =
     Json \<lparr>code = 500, status = ''error'', data = None,
           message = Some (Msg ''Failed to generate AI resume''),
           error = Some (if NODE_ENV rt = Val ''development'' then ErrorMessage e
                         else Msg ''Internal server error'')\<rparr>"

definition generate_resume ::
  "(resume, 'b) runtime_scheme \<Rightarrow> world \<Rightarrow> objectId \<Rightarrow> generate_body \<Rightarrow> response \<times> world" where
  "generate_resume rt w uid body =
     (if \<not> truthy_str (prompt body) then
        (error_reply 400 (Msg ''Prompt is required for AI generation''), w)
      else
        (let geminiPrompt = build_geminiPrompt (build_aiPrompt (prompt body));
             w1 = w\<lparr>provider_calls := provider_calls w @ [geminiPrompt]\<rparr>
         in case generateContent rt geminiPrompt of
              Inl e \<Rightarrow> (generation_failed rt (ProviderError e), w1)
            | Inr content \<Rightarrow>
                (case JSON_parse rt content of
                   None \<Rightarrow> (error_reply 500 (Msg ''Failed to parse AI response''), w1)
                 | Some aiGeneratedData \<Rightarrow>
                     (case save (new_Resume
                                   (aiGeneratedData
                                      \<lparr>userId := Val uid,
                                       template := default_to ''modern'' (req_template body),
                                       aiGenerated := Val True,
                                       aiPrompt := prompt body\<rparr>)) w1 of
                        Inl e \<Rightarrow> (generation_failed rt e, w1)
                      | Inr (d, w2) \<Rightarrow>
                          (Json \<lparr>code = 201, status = ''success'', data = Some d,
                                 message = Some (Msg ''AI-generated resume created successfully''),
                                 error = None\<rparr>, w2)))))"

section \<open>A runtime to evaluate with\<close>

text \<open>
  The proleptic Gregorian calendar in UTC, an \<open>en-US\<close> rendering of dates, a provider
  that answers every prompt with prose, and a parser that accepts the empty object only.
\<close>

definition civil_from_days :: "int \<Rightarrow> int \<times> int \<times> int" where
  "civil_from_days z0 =
     (let z = z0 + 719468;
          era = z div 146097;
          doe = z - era * 146097;
          yoe = (doe - doe div 1460 + doe div 36524 - doe div 146096) div 365;
          doy = doe - (365 * yoe + yoe div 4 - yoe div 100);
          mp = (5 * doy + 2) div 153;
          d = doy - (153 * mp + 2) div 5 + 1;
          m = (if mp < 10 then mp + 3 else mp - 9);
          y = yoe + era * 400
      in (if m \<le> 2 then y + 1 else y, m, d))"

definition utc_year :: "date \<Rightarrow> int" where
  "utc_year t = fst (civil_from_days (t div 86400000))"

definition en_US_date :: "date \<Rightarrow> string" where
  "en_US_date t =
     (case civil_from_days (t div 86400000) of
        (y, m, d) \<Rightarrow> show_int m @ ''/'' @ show_int d @ ''/'' @ show_int y)"

definition blank_resume :: resume where
  "blank_resume =
     \<lparr>userId = Undefined,
      personalInfo = \<lparr>fullName = Undefined, email = Undefined, phone = Undefined,
                      address = Undefined, linkedin = Undefined, website = Undefined,
                      summary = Undefined\<rparr>,
      experience = Undefined, education = Undefined, skills = Undefined,
      projects = Undefined, certifications = Undefined,
      accessibility = \<lparr>disabilityType = Undefined, accommodations = Undefined,
                       accessibilityPreferences = Undefined\<rparr>,
      template = Undefined, aiGenerated = Undefined, aiPrompt = Undefined,
      isActive = Undefined\<rparr>"

definition sample_runtime :: "resume runtime" where
  "sample_runtime =
     \<lparr>getFullYear = utc_year,
      toLocaleDateString = en_US_date,
      generateContent = (\<lambda>p. Inr ''Here is the resume you asked for.''),
      JSON_parse = (\<lambda>s. if s = ''{}'' then Some blank_resume else None),
      NODE_ENV = Undefined\<rparr>"

section \<open>Sample requests and documents\<close>

text \<open>
  The scenario of the specification: Jane Doe, Frontend Engineer at Acme since
  2021-01-01 (time value 1609459200000) and still there.
\<close>

definition acme_job :: experience_entry where
  "acme_job =
     \<lparr>exp_company = Val ''Acme'', exp_position = Val ''Frontend Engineer'',
      exp_startDate = Val 1609459200000, exp_endDate = Undefined, exp_current = Val True,
      exp_description = Undefined, exp_achievements = Undefined, exp_skills = Undefined\<rparr>"

text \<open>The same job, ended on 2019-01-01 (time value 1546300800000): two years before it began.\<close>

definition backdated_job :: experience_entry where
  "backdated_job = acme_job\<lparr>exp_endDate := Val 1546300800000, exp_current := Val False\<rparr>"

text \<open>The same job with no end date and no \<open>current\<close> flag given.\<close>

definition open_ended_job :: experience_entry where
  "open_ended_job = acme_job\<lparr>exp_current := Undefined\<rparr>"

text \<open>A request body with a name and an e-mail address and nothing else.\<close>

definition jane_body :: resume where
  "jane_body =
     blank_resume\<lparr>personalInfo :=
       (personalInfo blank_resume)\<lparr>fullName := Val ''Jane Doe'',
                                    email := Val ''jane@example.com''\<rparr>\<rparr>"

definition empty_world :: world where
  "empty_world = \<lparr>docs = [], next_id = 0, provider_calls = []\<rparr>"

text \<open>The collection after user 1 has created that resume: it is stored under \<open>_id\<close> 0.\<close>

definition janes_world :: world where
  "janes_world =
     \<lparr>docs = [(0, new_Resume (jane_body\<lparr>userId := Val 1\<rparr>))], next_id = 1,
      provider_calls = []\<rparr>"

text \<open>The update document of the request body \<open>{template: t}\<close>.\<close>

definition set_template :: "string js \<Rightarrow> update_doc" where
  "set_template t =
     \<lparr>changes = (\<lambda>r. r\<lparr>template := t\<rparr>),
      violations = enum_string ''template'' template_enum t\<rparr>"


definition react_prompt :: generate_body where
  "react_prompt =
     \<lparr>prompt = Val ''Frontend engineer, 3 years, React, led a 2-person team'',
      req_template = Val ''modern''\<rparr>"

definition no_prompt :: generate_body where
  "no_prompt = \<lparr>prompt = Undefined, req_template = Undefined\<rparr>"

text \<open>Trimming, as the specification's data model speaks of it: leading and trailing white space removed.\<close>

definition is_space :: "char \<Rightarrow> bool" where
  "is_space c = (c \<in> set [CHR '' '', CHR 0x09, CHR 0x0A, CHR 0x0B, CHR 0x0C, CHR 0x0D])"

definition trim :: "string \<Rightarrow> string" where
  "trim s = rev (dropWhile is_space (rev (dropWhile is_space s)))"

text \<open>The string-valued paths the schema marks \<open>required\<close>.\<close>

definition required_strings :: "resume \<Rightarrow> string js list" where
  "required_strings r =
     [fullName (personalInfo r), email (personalInfo r)] @
     concat (map (\<lambda>e. [exp_company e, exp_position e]) (items (experience r))) @
     concat (map (\<lambda>e. [edu_institution e, edu_degree e]) (items (education r))) @
     map proj_name (items (projects r)) @
     map cert_name (items (certifications r))"

text \<open>A resume with every required string that is given rewritten by \<open>g\<close>.\<close>

fun map_js :: "('a \<Rightarrow> 'a) \<Rightarrow> 'a js \<Rightarrow> 'a js" where
  "map_js g (Val x) = Val (g x)"
| "map_js g v = v"

definition map_required_strings :: "(string \<Rightarrow> string) \<Rightarrow> resume \<Rightarrow> resume" where
  "map_required_strings g r =
     r\<lparr>personalInfo :=
         (personalInfo r)\<lparr>fullName := map_js g (fullName (personalInfo r)),
                           email := map_js g (email (personalInfo r))\<rparr>,
       experience :=
         map_js (map (\<lambda>e. e\<lparr>exp_company := map_js g (exp_company e),
                               exp_position := map_js g (exp_position e)\<rparr>)) (experience r),
       education :=
         map_js (map (\<lambda>e. e\<lparr>edu_institution := map_js g (edu_institution e),
                               edu_degree := map_js g (edu_degree e)\<rparr>)) (education r),
       projects :=
         map_js (map (\<lambda>p. p\<lparr>proj_name := map_js g (proj_name p)\<rparr>)) (projects r),
       certifications :=
         map_js (map (\<lambda>c. c\<lparr>cert_name := map_js g (cert_name c)\<rparr>)) (certifications r)\<rparr>"

text \<open>Every non-empty string replaced by three spaces.\<close>

definition blank_out :: "string \<Rightarrow> string" where
  "blank_out s = (if s = [] then [] else ''   '')"

section \<open>Auxiliary facts\<close>

lemma calls_emit [simp]: "calls (emit c doc) = calls doc @ [c]"
  by (simp add: emit_def)

lemma texts_append [simp]: "texts (xs @ ys) = texts xs @ texts ys"
  by (induction xs rule: texts.induct) auto

lemmas pdf_defs = fontSize_def font_def text_opts_def text_line_def moveDown_def end_doc_def


lemma truthy_str_iff: "truthy_str v = (\<exists>s. v = Val s \<and> s \<noteq> [])"
  by (cases v) auto

lemma required_string_Nil: "(required_string path v = []) = truthy_str v"
  by (cases v) auto

lemma required_string_map_js:
  assumes "\<And>s. (g s = []) = (s = [])"
  shows "required_string path (map_js g v) = required_string path v"
  by (cases v) (auto simp: assms)

lemma validate_each_Nil:
  assumes "\<And>i x. (v i x = []) = P x"
  shows "(validate_each v xs = []) = (\<forall>x\<in>set (items xs). P x)"
proof -
  have "(concat (map (\<lambda>(i, x). v i x) (enumerate n ys)) = []) = (\<forall>x\<in>set ys. P x)" for n ys
    by (induction ys arbitrary: n) (auto simp: assms)
  then show ?thesis by (simp add: validate_each_def)
qed

lemma validate_each_map:
  assumes "\<And>i x. v i (f x) = v i x"
  shows "validate_each v (map_js (map f) xs) = validate_each v xs"
proof -
  have "concat (map (\<lambda>(i, x). v i x) (enumerate n (map f ys))) =
        concat (map (\<lambda>(i, x). v i x) (enumerate n ys))" for n ys
    by (induction ys arbitrary: n) (auto simp: assms)
  then show ?thesis by (cases xs) (simp_all add: validate_each_def)
qed

lemma validate_each_replace:
  assumes "\<And>i. v i e' = v i e"
  shows "validate_each v (Val (xs @ e' # ys)) = validate_each v (Val (xs @ e # ys))"
  by (simp add: validate_each_def enumerate_append_eq assms)

lemma find_other_owner:
  assumes "\<forall>d\<in>set ds. fst d = rid \<longrightarrow> userId (snd d) \<noteq> Val uid"
  shows "find (matches_active rid uid) ds = None" and "find (matches_owner rid uid) ds = None"
  using assms by (auto simp: find_None_iff matches_active_def matches_owner_def)

lemma update_first_other_owner:
  assumes "\<forall>d\<in>set ds. fst d = rid \<longrightarrow> userId (snd d) \<noteq> Val uid"
  shows "update_first (matches_active rid uid) f ds = ds"
    and "update_first (matches_owner rid uid) f ds = ds"
  using assms by (induction ds) (auto simp: matches_active_def matches_owner_def)

lemma disposition_ok:
  "list_all header_char_ok (content_disposition r) =
     list_all header_char_ok (interp (fullName (personalInfo r)))"
  by (simp add: content_disposition_def header_char_ok_def)

lemmas sample_defs = jane_body_def blank_resume_def new_Resume_def default_accessibility_def
  default_experience_def acme_job_def backdated_job_def open_ended_job_def empty_world_def
  janes_world_def

lemmas validate_defs = validate_def validate_each_def validate_experience_def
  validate_certification_def template_enum_def valid_time_def

lemmas route_defs = create_resume_def save_def resume_pdf_def findOne_def matches_active_def
  pdf_response_def disposition_ok header_char_ok_def PDFDocument_def

lemmas render_defs = generatePDFContent_def render_header_def render_summary_def
  render_experience_def render_experience_entry_def experience_date_line_def
  render_education_def render_skills_def render_skill_set_def render_projects_def
  render_certifications_def render_certification_def pdf_defs Let_def

lemma required_date_Nil: "(required_date path v = []) = (\<exists>t. v = Val t \<and> valid_time t)"
  by (cases v) auto

lemma cast_date_Nil: "(cast_date path v = []) = (\<forall>t. v = Val t \<longrightarrow> valid_time t)"
  by (cases v) auto

lemma validate_accepts_strings:
  assumes "validate r = []"
  shows "\<forall>v\<in>set (required_strings r). truthy_str v"
proof -
  have e1: "(validate_each validate_experience xs = []) =
      (\<forall>e\<in>set (items xs). truthy_str (exp_company e) \<and> truthy_str (exp_position e) \<and>
         (\<exists>t. exp_startDate e = Val t \<and> valid_time t) \<and>
         (\<forall>t. exp_endDate e = Val t \<longrightarrow> valid_time t))" for xs
    by (rule validate_each_Nil)
       (simp add: validate_experience_def required_string_Nil required_date_Nil cast_date_Nil)
  have e2: "(validate_each validate_education xs = []) =
      (\<forall>e\<in>set (items xs). truthy_str (edu_institution e) \<and> truthy_str (edu_degree e) \<and>
         (\<exists>t. edu_startDate e = Val t \<and> valid_time t) \<and>
         (\<forall>t. edu_endDate e = Val t \<longrightarrow> valid_time t))" for xs
    by (rule validate_each_Nil)
       (simp add: validate_education_def required_string_Nil required_date_Nil cast_date_Nil)
  have e3: "(validate_each validate_project xs = []) =
      (\<forall>p\<in>set (items xs). truthy_str (proj_name p) \<and>
         (\<forall>t. proj_startDate p = Val t \<longrightarrow> valid_time t) \<and>
         (\<forall>t. proj_endDate p = Val t \<longrightarrow> valid_time t))" for xs
    by (rule validate_each_Nil)
       (simp add: validate_project_def required_string_Nil cast_date_Nil)
  have e4: "(validate_each validate_certification xs = []) =
      (\<forall>c\<in>set (items xs). truthy_str (cert_name c) \<and>
         (\<forall>t. cert_date c = Val t \<longrightarrow> valid_time t) \<and>
         (\<forall>t. cert_expiryDate c = Val t \<longrightarrow> valid_time t))" for xs
    by (rule validate_each_Nil)
       (simp add: validate_certification_def required_string_Nil cast_date_Nil)
  from assms show ?thesis
    unfolding validate_def required_strings_def
    by (auto simp: e1 e2 e3 e4 required_string_Nil)
qed

lemma validate_map_required_strings:
  assumes "\<And>s. (g s = []) = (s = [])"
  shows "validate (map_required_strings g r) = validate r"
proof -
  note rs = required_string_map_js [of g, OF assms]
  have "validate_each validate_experience
          (map_js (map (\<lambda>e. e\<lparr>exp_company := map_js g (exp_company e),
                                exp_position := map_js g (exp_position e)\<rparr>)) xs) =
        validate_each validate_experience xs" for xs
    by (rule validate_each_map) (simp add: validate_experience_def rs)
  moreover have "validate_each validate_education
          (map_js (map (\<lambda>e. e\<lparr>edu_institution := map_js g (edu_institution e),
                                edu_degree := map_js g (edu_degree e)\<rparr>)) xs) =
        validate_each validate_education xs" for xs
    by (rule validate_each_map) (simp add: validate_education_def rs)
  moreover have "validate_each validate_project
          (map_js (map (\<lambda>p. p\<lparr>proj_name := map_js g (proj_name p)\<rparr>)) xs) =
        validate_each validate_project xs" for xs
    by (rule validate_each_map) (simp add: validate_project_def rs)
  moreover have "validate_each validate_certification
          (map_js (map (\<lambda>c. c\<lparr>cert_name := map_js g (cert_name c)\<rparr>)) xs) =
        validate_each validate_certification xs" for xs
    by (rule validate_each_map) (simp add: validate_certification_def rs)
  ultimately show ?thesis
    by (simp add: validate_def map_required_strings_def rs)
qed


section \<open>The generation request\<close>

text \<open>
  C3. A generation request whose prompt is missing, null or the empty string is answered
  at once with status 400 and the message that a prompt is required, and leaves the
  state as it was: no prompt has been sent to the provider. A request whose prompt is a
  non-empty string sends exactly one prompt to the provider, the instruction text built
  around the user's words.
\<close>

theorem generate_requires_prompt:
  "(prompt body = Undefined \<or> prompt body = Null \<or> prompt body = Val [] \<longrightarrow>
      generate_resume rt w uid body =
        (error_reply 400 (Msg ''Prompt is required for AI generation''), w)) \<and>
   (\<forall>p. prompt body = Val p \<and> p \<noteq> [] \<longrightarrow>
      provider_calls (snd (generate_resume rt w uid body)) =
        provider_calls w @ [build_geminiPrompt (build_aiPrompt (Val p))])"
  by (auto simp: generate_resume_def Let_def save_def split: sum.splits option.splits)

text \<open>C3 at a request with no prompt and at the request of the specification's scenario.\<close>

theorem generate_requires_prompt_witness:
  "prompt no_prompt = Undefined \<and>
   generate_resume sample_runtime empty_world 1 no_prompt =
     (error_reply 400 (Msg ''Prompt is required for AI generation''), empty_world) \<and>
   prompt react_prompt = Val ''Frontend engineer, 3 years, React, led a 2-person team'' \<and>
   provider_calls (snd (generate_resume sample_runtime empty_world 1 react_prompt)) =
     [build_geminiPrompt
        (build_aiPrompt (Val ''Frontend engineer, 3 years, React, led a 2-person team''))]"
  using generate_requires_prompt [of no_prompt sample_runtime empty_world 1]
    generate_requires_prompt [of react_prompt sample_runtime empty_world 1]
  by (simp add: no_prompt_def react_prompt_def empty_world_def)

text \<open>
  C4. When the provider answers a request that has a prompt with text that
  \<open>JSON.parse\<close> rejects, the reply is status 500 with the message that the response
  could not be parsed, and no resume has been constructed or stored: the collection
  and the next fresh \<open>_id\<close> are as before.
\<close>

theorem generate_malformed_response:
  assumes "prompt body = Val p" and "p \<noteq> []"
    and "generateContent rt (build_geminiPrompt (build_aiPrompt (Val p))) = Inr content"
    and "JSON_parse rt content = None"
  shows "fst (generate_resume rt w uid body) =
           error_reply 500 (Msg ''Failed to parse AI response'') \<and>
         docs (snd (generate_resume rt w uid body)) = docs w \<and>
         next_id (snd (generate_resume rt w uid body)) = next_id w"
  using assms by (simp add: generate_resume_def Let_def)

text \<open>C4 at the scenario's request, with a provider that answers in prose.\<close>

theorem generate_malformed_response_witness:
  "prompt react_prompt = Val ''Frontend engineer, 3 years, React, led a 2-person team'' \<and>
   generateContent sample_runtime
     (build_geminiPrompt
        (build_aiPrompt (Val ''Frontend engineer, 3 years, React, led a 2-person team''))) =
     Inr ''Here is the resume you asked for.'' \<and>
   JSON_parse sample_runtime ''Here is the resume you asked for.'' = None \<and>
   fst (generate_resume sample_runtime empty_world 1 react_prompt) =
     error_reply 500 (Msg ''Failed to parse AI response'') \<and>
   docs (snd (generate_resume sample_runtime empty_world 1 react_prompt)) = []"
proof -
  have a: "prompt react_prompt = Val ''Frontend engineer, 3 years, React, led a 2-person team''"
    by (simp add: react_prompt_def)
  have b: "''Frontend engineer, 3 years, React, led a 2-person team'' \<noteq> []"
    by simp
  have c: "generateContent sample_runtime
     (build_geminiPrompt
        (build_aiPrompt (Val ''Frontend engineer, 3 years, React, led a 2-person team''))) =
     Inr ''Here is the resume you asked for.''"
    by (simp add: sample_runtime_def)
  have d: "JSON_parse sample_runtime ''Here is the resume you asked for.'' = None"
    by (simp add: sample_runtime_def)
  show ?thesis
    using a c d generate_malformed_response [OF a b c d, of empty_world 1]
    by (simp add: empty_world_def)
qed

section \<open>Ownership\<close>

text \<open>
  C9, as amended. When every stored resume with the requested \<open>_id\<close> belongs to someone
  other than the requester, reading it, deleting it and asking for its PDF answer
  "Resume not found"; so does updating it, unless the update itself fails its validators,
  in which case the answer is the 400 validation error. In all four cases the state is
  unchanged and no resume is in the response.
\<close>

theorem other_owner_not_found:
  assumes "\<forall>d\<in>set (docs w). fst d = rid \<longrightarrow> userId (snd d) \<noteq> Val uid"
  shows "get_resume w uid rid = (not_found, w) \<and>
         update_resume w uid rid body =
           (if violations body = [] then not_found
            else error_reply 400 (ErrorMessage (ValidationError (violations body))), w) \<and>
         delete_resume w uid rid = (not_found, w) \<and>
         resume_pdf rt w uid rid = (not_found, w)"
  using find_other_owner [OF assms] update_first_other_owner [OF assms]
  by (simp add: get_resume_def update_resume_def delete_resume_def resume_pdf_def findOne_def
      findOneAndUpdate_def)

text \<open>C9, as amended, at user 2 asking for the resume of user 1.\<close>

theorem other_owner_not_found_witness:
  "map (\<lambda>d. (fst d, userId (snd d))) (docs janes_world) = [(0, Val 1)] \<and>
   get_resume janes_world 2 0 = (not_found, janes_world) \<and>
   update_resume janes_world 2 0 (set_template (Val ''classic'')) = (not_found, janes_world) \<and>
   delete_resume janes_world 2 0 = (not_found, janes_world) \<and>
   resume_pdf sample_runtime janes_world 2 0 = (not_found, janes_world)"
proof -
  have h: "\<forall>d\<in>set (docs janes_world). fst d = 0 \<longrightarrow> userId (snd d) \<noteq> Val 2"
    by (simp add: janes_world_def new_Resume_def)
  have "map (\<lambda>d. (fst d, userId (snd d))) (docs janes_world) = [(0, Val 1)]"
    by (simp add: janes_world_def new_Resume_def)
  then show ?thesis
    using other_owner_not_found [OF h, of "set_template (Val ''classic'')" sample_runtime]
    by (simp add: set_template_def template_enum_def)
qed

text \<open>
  C9 as stated fails for the update: user 2 sends \<open>{template: "bogus"}\<close> for the resume
  of user 1 and is answered with the validation error, not with "Resume not found".
\<close>

theorem other_owner_invalid_update:
  "docs janes_world = [(0, new_Resume (jane_body\<lparr>userId := Val 1\<rparr>))] \<and>
   userId (new_Resume (jane_body\<lparr>userId := Val 1\<rparr>)) = Val 1 \<and>
   update_resume janes_world 2 0 (set_template (Val ''bogus'')) =
     (error_reply 400 (ErrorMessage (ValidationError [''template''])), janes_world) \<and>
   error_reply 400 (ErrorMessage (ValidationError [''template''])) \<noteq> not_found"
  by (simp add: janes_world_def new_Resume_def update_resume_def findOneAndUpdate_def
      set_template_def template_enum_def not_found_def error_reply_def)

section \<open>The validation gate\<close>

text \<open>
  C1, as amended. An experience entry with \<open>current = false\<close> and an \<open>endDate\<close> earlier
  than its \<open>startDate\<close>, both of them dates, is not rejected on that account and no date
  field of it is cited: the errors of the entry are those of its company and position
  alone, and validation of the resume gives what it gives when the entry's \<open>endDate\<close>
  is its \<open>startDate\<close>.
\<close>

theorem backdating_not_validated:
  assumes "exp_current e = Val False" and "exp_startDate e = Val s" and "exp_endDate e = Val t"
    and "t < s" and "valid_time s" and "valid_time t"
  shows "validate (r\<lparr>experience := Val (xs @ e # ys)\<rparr>) =
           validate (r\<lparr>experience := Val (xs @ e\<lparr>exp_endDate := Val s\<rparr> # ys)\<rparr>) \<and>
         validate_experience i e =
           required_string (''experience.'' @ show_nat i @ ''.company'') (exp_company e) @
           required_string (''experience.'' @ show_nat i @ ''.position'') (exp_position e)"
proof -
  have "validate_experience j e = validate_experience j (e\<lparr>exp_endDate := Val s\<rparr>)" for j
    using assms by (simp add: validate_experience_def)
  then have "validate_each validate_experience (Val (xs @ e # ys)) =
             validate_each validate_experience (Val (xs @ e\<lparr>exp_endDate := Val s\<rparr> # ys))"
    by (rule validate_each_replace)
  then show ?thesis
    using assms by (simp add: validate_def validate_experience_def)
qed

text \<open>C1, as amended, at the scenario's job ended two years before it began.\<close>

theorem backdating_not_validated_witness:
  "exp_current backdated_job = Val False \<and>
   exp_startDate backdated_job = Val 1609459200000 \<and>
   exp_endDate backdated_job = Val 1546300800000 \<and>
   (1546300800000 :: int) < 1609459200000 \<and>
   valid_time 1609459200000 \<and> valid_time 1546300800000 \<and>
   validate (jane_body\<lparr>userId := Val 1, experience := Val [backdated_job]\<rparr>) =
     validate (jane_body\<lparr>userId := Val 1,
       experience := Val [backdated_job\<lparr>exp_endDate := Val 1609459200000\<rparr>]\<rparr>) \<and>
   validate_experience 0 backdated_job = []"
proof -
  have a: "exp_current backdated_job = Val False"
    and b: "exp_startDate backdated_job = Val 1609459200000"
    and c: "exp_endDate backdated_job = Val 1546300800000"
    by (simp_all add: backdated_job_def acme_job_def)
  have d: "(1546300800000 :: int) < 1609459200000" by simp
  have e: "valid_time 1609459200000" and f: "valid_time 1546300800000"
    by (simp_all add: valid_time_def)
  show ?thesis
    using a b c d e f
      backdating_not_validated [OF a b c d e f,
        where r = "jane_body\<lparr>userId := Val 1\<rparr>" and xs = "[]" and ys = "[]" and i = 0]
    by (simp add: backdated_job_def acme_job_def)
qed

text \<open>
  C1 as stated fails: a job with \<open>current = false\<close> that ended in 2019 and began in
  2021 passes validation, and the create request stores it and answers 201.
\<close>

theorem backdated_job_accepted:
  "exp_current backdated_job = Val False \<and>
   exp_startDate backdated_job = Val 1609459200000 \<and>
   exp_endDate backdated_job = Val 1546300800000 \<and>
   (1546300800000 :: int) < 1609459200000 \<and>
   validate (new_Resume (jane_body\<lparr>userId := Val 1, experience := Val [backdated_job]\<rparr>)) = [] \<and>
   fst (create_resume empty_world 1 (jane_body\<lparr>experience := Val [backdated_job]\<rparr>)) =
     success_data 201
       (0, new_Resume (jane_body\<lparr>userId := Val 1, experience := Val [backdated_job]\<rparr>))"
  by (simp add: sample_defs validate_defs create_resume_def save_def)

text \<open>
  C5, as amended. In a resume that passes validation every required string field (full
  name, e-mail, company and position of each experience entry, institution and degree
  of each education entry, the name of each project and of each certification) is
  present and not the empty string; a resume in which one of them is missing, null
  or empty is rejected. Strings are not trimmed: validation sees of a required string
  only whether it is empty, so rewriting the required strings in any way that keeps
  the non-empty ones non-empty, white space only included, leaves its result unchanged.
\<close>

theorem required_strings_nonempty:
  "(validate r = [] \<longrightarrow> (\<forall>v\<in>set (required_strings r). \<exists>s. v = Val s \<and> s \<noteq> [])) \<and>
   ((\<exists>v\<in>set (required_strings r). v = Undefined \<or> v = Null \<or> v = Val []) \<longrightarrow>
      validate r \<noteq> []) \<and>
   ((\<forall>s. (g s = []) = (s = [])) \<longrightarrow> validate (map_required_strings g r) = validate r)"
proof (intro conjI impI)
  assume "validate r = []"
  then show "\<forall>v\<in>set (required_strings r). \<exists>s. v = Val s \<and> s \<noteq> []"
    using validate_accepts_strings [of r] by (simp add: truthy_str_iff)
next
  assume "\<exists>v\<in>set (required_strings r). v = Undefined \<or> v = Null \<or> v = Val []"
  then obtain v where "v \<in> set (required_strings r)" and "\<not> truthy_str v"
    by auto
  then show "validate r \<noteq> []"
    using validate_accepts_strings [of r] by blast
next
  assume "\<forall>s. (g s = []) = (s = [])"
  then show "validate (map_required_strings g r) = validate r"
    by (simp add: validate_map_required_strings)
qed

text \<open>
  C5, as amended, at the resume of the specification's scenario: as it is, with its
  four required strings blanked to three spaces each, and with a project that has the
  empty string for a name.
\<close>

theorem required_strings_nonempty_witness:
  "required_strings (new_Resume (jane_body\<lparr>userId := Val 1, experience := Val [acme_job]\<rparr>)) =
     [Val ''Jane Doe'', Val ''jane@example.com'', Val ''Acme'', Val ''Frontend Engineer''] \<and>
   validate (new_Resume (jane_body\<lparr>userId := Val 1, experience := Val [acme_job]\<rparr>)) = [] \<and>
   required_strings (map_required_strings blank_out
       (new_Resume (jane_body\<lparr>userId := Val 1, experience := Val [acme_job]\<rparr>))) =
     [Val ''   '', Val ''   '', Val ''   '', Val ''   ''] \<and>
   validate (map_required_strings blank_out
       (new_Resume (jane_body\<lparr>userId := Val 1, experience := Val [acme_job]\<rparr>))) = [] \<and>
   validate (new_Resume (jane_body\<lparr>userId := Val 1, experience := Val [acme_job]\<rparr>)
       \<lparr>projects := Val [\<lparr>proj_name = Val [], proj_description = Undefined,
            proj_technologies = Undefined, proj_link = Undefined, proj_startDate = Undefined,
            proj_endDate = Undefined\<rparr>]\<rparr>) \<noteq> []"
proof -
  have g: "\<forall>s. (blank_out s = []) = (s = [])"
    by (simp add: blank_out_def)
  have v: "validate (new_Resume (jane_body\<lparr>userId := Val 1, experience := Val [acme_job]\<rparr>)) = []"
    by (simp add: sample_defs validate_defs)
  show ?thesis
    using g v
      required_strings_nonempty
        [where r = "new_Resume (jane_body\<lparr>userId := Val 1, experience := Val [acme_job]\<rparr>)"
           and g = blank_out]
      required_strings_nonempty
        [where r = "new_Resume (jane_body\<lparr>userId := Val 1, experience := Val [acme_job]\<rparr>)
           \<lparr>projects := Val [\<lparr>proj_name = Val [], proj_description = Undefined,
                proj_technologies = Undefined, proj_link = Undefined,
                proj_startDate = Undefined, proj_endDate = Undefined\<rparr>]\<rparr>"
           and g = blank_out]
    by (simp add: sample_defs required_strings_def map_required_strings_def blank_out_def)
qed

text \<open>
  C5 as stated fails: a full name of three spaces is empty after trimming, and the
  resume that carries it passes validation.
\<close>

theorem blank_name_accepted:
  "fullName (personalInfo (new_Resume (jane_body\<lparr>userId := Val 1,
       personalInfo := (personalInfo jane_body)\<lparr>fullName := Val ''   ''\<rparr>\<rparr>))) = Val ''   '' \<and>
   trim ''   '' = [] \<and>
   validate (new_Resume (jane_body\<lparr>userId := Val 1,
       personalInfo := (personalInfo jane_body)\<lparr>fullName := Val ''   ''\<rparr>\<rparr>)) = []"
  by (simp add: sample_defs trim_def is_space_def validate_defs)

section \<open>The rendered document\<close>

text \<open>
  C2, where the code departs from it. User 1 creates a resume from a name and an e-mail
  address; the stored document has the \<open>skills\<close> object with three empty lists. Its PDF
  carries the heading "Skills" with nothing under it: the guard of that section tests
  the object, not its lists.
\<close>

theorem empty_skills_heading_emitted:
  "(case create_resume empty_world 1 jane_body of
      (created, w) \<Rightarrow>
        created = success_data 201 (0, new_Resume (jane_body\<lparr>userId := Val 1\<rparr>)) \<and>
        skills (new_Resume (jane_body\<lparr>userId := Val 1\<rparr>)) =
          Val \<lparr>technical = Val [], soft = Val [], languages = Val []\<rparr> \<and>
        (case resume_pdf rt w 1 0 of
           (Pdf headers doc, w') \<Rightarrow>
             texts (calls doc) = [Val ''Jane Doe'', Val ''jane@example.com'', Val ''Skills'']
         | (Json reply, w') \<Rightarrow> False))"
  by (simp add: route_defs sample_defs validate_defs render_defs)

text \<open>
  C6, where the code departs from it. User 1 creates a resume with one job that began on
  2021-01-01 and has neither an end date nor the \<open>current\<close> flag; it passes validation
  and is stored with \<open>current = false\<close>. In its PDF, rendered in UTC, the block of that
  job is "Frontend Engineer at Acme" followed by the date line "2021 - NaN": the end
  date is formatted without a test that there is one.
\<close>

theorem open_ended_job_prints_NaN:
  "(case create_resume empty_world 1 (jane_body\<lparr>experience := Val [open_ended_job]\<rparr>) of
      (created, w) \<Rightarrow>
        created =
          success_data 201
            (0, new_Resume (jane_body\<lparr>userId := Val 1, experience := Val [open_ended_job]\<rparr>)) \<and>
        map (\<lambda>e. (exp_startDate e, exp_endDate e, exp_current e))
          (items (experience (new_Resume
             (jane_body\<lparr>userId := Val 1, experience := Val [open_ended_job]\<rparr>)))) =
          [(Val 1609459200000, Undefined, Val False)] \<and>
        (case resume_pdf sample_runtime w 1 0 of
           (Pdf headers doc, w') \<Rightarrow>
             texts (calls doc) =
               [Val ''Jane Doe'', Val ''jane@example.com'', Val ''Professional Experience'',
                Val ''Frontend Engineer at Acme'', Val ''2021 - NaN'', Val ''Skills'']
         | (Json reply, w') \<Rightarrow> False))"
proof -
  have y: "show_int (utc_year 1609459200000) = ''2021''"
    by code_simp
  show ?thesis
    by (simp add: route_defs sample_defs validate_defs render_defs sample_runtime_def y)
qed



text \<open>
  C7. Two resumes that differ in nothing but \<open>template\<close> are rendered by the same
  sequence of calls on the document, and their PDF responses are equal, headers
  included: the template is never read when the document is written.
\<close>

theorem template_noninterference:
  assumes "r2 = r1\<lparr>template := template r2\<rparr>"
  shows "generatePDFContent rt doc r2 = generatePDFContent rt doc r1 \<and>
         pdf_response rt r2 = pdf_response rt r1"
proof -
  have "generatePDFContent rt doc (r1\<lparr>template := t\<rparr>) = generatePDFContent rt doc r1 \<and>
        pdf_response rt (r1\<lparr>template := t\<rparr>) = pdf_response rt r1" for t
    by (simp add: generatePDFContent_def pdf_response_def content_disposition_def)
  with assms show ?thesis by metis
qed

text \<open>C7 at the same resume under the templates "classic" and "modern".\<close>

theorem template_noninterference_witness:
  "jane_body\<lparr>template := Val ''classic''\<rparr> =
     (jane_body\<lparr>template := Val ''modern''\<rparr>)
       \<lparr>template := template (jane_body\<lparr>template := Val ''classic''\<rparr>)\<rparr> \<and>
   generatePDFContent sample_runtime (PDFDocument ''A4'' 50)
       (jane_body\<lparr>template := Val ''classic''\<rparr>) =
     generatePDFContent sample_runtime (PDFDocument ''A4'' 50)
       (jane_body\<lparr>template := Val ''modern''\<rparr>) \<and>
   pdf_response sample_runtime (jane_body\<lparr>template := Val ''classic''\<rparr>) =
     pdf_response sample_runtime (jane_body\<lparr>template := Val ''modern''\<rparr>)"
proof -
  have h: "jane_body\<lparr>template := Val ''classic''\<rparr> =
     (jane_body\<lparr>template := Val ''modern''\<rparr>)
       \<lparr>template := template (jane_body\<lparr>template := Val ''classic''\<rparr>)\<rparr>"
    by simp
  show ?thesis
    using h template_noninterference [OF h, of sample_runtime "PDFDocument ''A4'' 50"]
    by simp
qed

end
